theory Spec2Isabelle
  imports Main "HOL-Library.Sublist" "HOL-Library.AList"
begin

section \<open>Python primitives used by the sources\<close>

text \<open>
  Strings are byte lists. Exceptions are values of \<open>error\<close>; a function that can raise
  returns \<open>error + 'a\<close> with \<open>Inl\<close> for the raised exception.
\<close>

datatype error =
    KeyError string
  | FileNotFoundError string
  | SameFileError string
  | IndexError
  | Failure string

definition startswith :: "string \<Rightarrow> string \<Rightarrow> bool" where
  "startswith s p = prefix p s"

definition endswith :: "string \<Rightarrow> string \<Rightarrow> bool" where
  "endswith s x = suffix x s"

text \<open>
  \<open>str.replace(old, new)\<close>: every non-overlapping occurrence, scanning from the left.
  For an empty \<open>old\<close> Python puts \<open>new\<close> before every character and at the end.
\<close>

function str_replace :: "string \<Rightarrow> string \<Rightarrow> string \<Rightarrow> string" where
  "str_replace old new s =
     (if old = [] then new @ concat (map (\<lambda>c. c # new) s)
      else if s = [] then []
      else if prefix old s then new @ str_replace old new (drop (length old) s)
      else hd s # str_replace old new (tl s))"
  by pat_completeness auto
termination
  by (relation "measure (\<lambda>(old, new, s). length s)") auto

declare str_replace.simps [simp del]

text \<open>
  \<open>str.split(sep)\<close> for a non-empty separator (every call in the sources passes a
  literal one): the fields between the occurrences of \<open>sep\<close>, empty fields kept.
\<close>

function str_split :: "string \<Rightarrow> string \<Rightarrow> string list" where
  "str_split sep s =
     (if sep = [] then [s]
      else if s = [] then [[]]
      else if prefix sep s then [] # str_split sep (drop (length sep) s)
      else (case str_split sep (tl s) of
              [] \<Rightarrow> [[hd s]]
            | x # xs \<Rightarrow> (hd s # x) # xs))"
  by pat_completeness auto
termination
  by (relation "measure (\<lambda>(sep, s). length s)") auto

declare str_split.simps [simp del]

text \<open>\<open>str.strip()\<close>: the ASCII characters for which \<open>str.isspace\<close> holds are removed at both ends.\<close>

definition is_space :: "char \<Rightarrow> bool" where
  "is_space c = (c \<in> set [CHR '' '', CHR 0x09, CHR 0x0A, CHR 0x0B, CHR 0x0C, CHR 0x0D,
                            CHR 0x1C, CHR 0x1D, CHR 0x1E, CHR 0x1F])"

definition strip :: "string \<Rightarrow> string" where
  "strip s = rev (dropWhile is_space (rev (dropWhile is_space s)))"

text \<open>\<open>os.path.join\<close> (POSIX) of two components, and of three as Python folds it.\<close>

definition path_join :: "string \<Rightarrow> string \<Rightarrow> string" where
  "path_join a b =
     (if startswith b ''/'' then b
      else if a = [] \<or> endswith a ''/'' then a @ b
      else a @ ''/'' @ b)"

definition path_join3 :: "string \<Rightarrow> string \<Rightarrow> string \<Rightarrow> string" where
  "path_join3 a b c = path_join (path_join a b) c"

text \<open>\<open>os.path.basename\<close>: what follows the last slash.\<close>

definition basename :: "string \<Rightarrow> string" where
  "basename p = rev (takeWhile (\<lambda>c. c \<noteq> CHR ''/'') (rev p))"

text \<open>The slices \<open>xs[0::2]\<close> and \<open>xs[1::2]\<close>.\<close>

fun evens :: "'a list \<Rightarrow> 'a list" where
  "evens [] = []"
| "evens [x] = [x]"
| "evens (x # y # zs) = x # evens zs"

fun odds :: "'a list \<Rightarrow> 'a list" where
  "odds [] = []"
| "odds [x] = []"
| "odds (x # y # zs) = y # odds zs"

section \<open>distro.py\<close>

subsection \<open>resolve\_url\<close>

text \<open>
  \<open>config.runtime['arch']\<close> is read from the global configuration; it is the first
  parameter here. The dict literal is iterated in insertion order: \<open>$repo\<close>, then \<open>$arch\<close>.
\<close>

definition resolve_url :: "string \<Rightarrow> string \<Rightarrow> string \<Rightarrow> string \<Rightarrow> string" where
  "resolve_url runtime_arch url_template repo_name arch =
     fold (\<lambda>(template, replacement) result. str_replace template replacement result)
       [(''$repo'', repo_name), (''$arch'', runtime_arch)] url_template"

subsection \<open>PackageInfo\<close>

record PackageInfo =
  pi_name :: string
  pi_version :: string
  pi_filename :: string
  pi_resolved_url :: "string option"

definition parse_desc :: "string \<Rightarrow> string option \<Rightarrow> error + PackageInfo" where
  "parse_desc desc_str resolved_url =
     (let pruned_lines = map strip (filter (\<lambda>line. strip line \<noteq> []) (str_split ''%'' desc_str));
          desc = fold (\<lambda>(key, val) d. d(strip key \<mapsto> strip val))
                   (zip (evens pruned_lines) (odds pruned_lines)) Map.empty
      in case desc ''NAME'' of
           None \<Rightarrow> Inl (KeyError ''NAME'')
         | Some n \<Rightarrow>
             (case desc ''VERSION'' of
                None \<Rightarrow> Inl (KeyError ''VERSION'')
              | Some v \<Rightarrow>
                  (case desc ''FILENAME'' of
                     None \<Rightarrow> Inl (KeyError ''FILENAME'')
                   | Some f \<Rightarrow>
                       Inr \<lparr>pi_name = n, pi_version = v, pi_filename = f,
                            pi_resolved_url = resolved_url\<rparr>)))"

subsection \<open>RepoInfo and Repo\<close>

text \<open>
  Dict objects live in a store, so that two references to one dict are visible as such.
  Cell \<open>RepoInfo_options\<close> holds the dict created once by the class body
  \<open>options: dict[str, str] = {}\<close>. \<open>RepoInfo.__init__\<close> never assigns
  \<open>self.options\<close>: the attribute lookup \<open>self.options\<close> finds the class attribute, and
  \<open>update\<close> mutates that one dict. \<open>Repo.__init__\<close> assigns \<open>self.options\<close> a deep copy,
  a fresh cell.
\<close>

type_synonym dict = "string \<rightharpoonup> string"

record store =
  cells :: "nat \<Rightarrow> dict"
  next_cell :: nat

definition RepoInfo_options :: nat where
  "RepoInfo_options = 0"

text \<open>The store after the class body of \<open>RepoInfo\<close> has run.\<close>

definition initial_store :: store where
  "initial_store = \<lparr>cells = (\<lambda>_. Map.empty), next_cell = 1\<rparr>"

record RepoInfo =
  url_template :: string
  options_ref :: nat

definition RepoInfo_init :: "string \<Rightarrow> dict \<Rightarrow> store \<Rightarrow> RepoInfo \<times> store" where
  "RepoInfo_init url opts st =
     (\<lparr>url_template = url, options_ref = RepoInfo_options\<rparr>,
      st\<lparr>cells := (cells st)(RepoInfo_options := cells st RepoInfo_options ++ opts)\<rparr>)"

text \<open>What \<open>info.options\<close> evaluates to.\<close>

definition RepoInfo_get_options :: "store \<Rightarrow> RepoInfo \<Rightarrow> dict" where
  "RepoInfo_get_options st info = cells st (options_ref info)"

text \<open>The attribute \<open>arch\<close> of a \<open>Repo\<close> is the field \<open>r_arch\<close>.\<close>

record Repo = RepoInfo +
  repo_name :: string
  resolved_url :: "string option"
  r_arch :: string
  packages :: "(string \<times> PackageInfo) list"
  remote :: "bool option"
  scanned :: bool

text \<open>
  \<open>Repo.scan\<close>. The dict \<open>self.packages\<close> is an association list in insertion order,
  \<open>d[k] = v\<close> is \<^const>\<open>AList.update\<close>. The download (\<open>urlopen\<close>) and \<open>tarfile.open\<close> are the parameter
  \<open>read_index\<close>: given whether the repo is remote and the URI or path, the members of the
  archive as pairs of name and decoded content, or the exception raised.
\<close>

fun scan_members :: "string \<Rightarrow> (string \<times> string) list \<Rightarrow> (string \<times> PackageInfo) list
    \<Rightarrow> error + (string \<times> PackageInfo) list" where
  "scan_members url [] pkgs = Inr pkgs"
| "scan_members url ((node_name, content) # nodes) pkgs =
     (if basename node_name = ''desc'' then
        (case parse_desc content (Some url) of
           Inl e \<Rightarrow> Inl e
         | Inr pkg \<Rightarrow> scan_members url nodes (AList.update (pi_name pkg) pkg pkgs))
      else scan_members url nodes pkgs)"

definition scan :: "string \<Rightarrow> (bool \<Rightarrow> string \<Rightarrow> error + (string \<times> string) list)
    \<Rightarrow> Repo \<Rightarrow> error + Repo" where
  "scan runtime_arch read_index self =
     (let url = resolve_url runtime_arch (url_template self) (repo_name self) (r_arch self);
          is_remote = \<not> startswith url ''file://'';
          uri = url @ ''/'' @ repo_name self @ ''.db''
      in case (if is_remote then Inr uri
               else (case str_split ''file://'' uri of
                       _ # p # _ \<Rightarrow> Inr p
                     | _ \<Rightarrow> Inl IndexError)) of
           Inl e \<Rightarrow> Inl e
         | Inr path \<Rightarrow>
             (case read_index is_remote path of
                Inl e \<Rightarrow> Inl e
              | Inr nodes \<Rightarrow>
                  (case scan_members url nodes (packages self) of
                     Inl e \<Rightarrow> Inl e
                   | Inr pkgs \<Rightarrow>
                       Inr (self\<lparr>resolved_url := Some url, remote := Some is_remote,
                                 packages := pkgs, scanned := True\<rparr>))))"

definition Repo_init :: "string \<Rightarrow> (bool \<Rightarrow> string \<Rightarrow> error + (string \<times> string) list)
    \<Rightarrow> string \<Rightarrow> string \<Rightarrow> string \<Rightarrow> dict \<Rightarrow> bool \<Rightarrow> store \<Rightarrow> error + Repo \<times> store" where
  "Repo_init runtime_arch read_index nm url a opts do_scan st =
     (let ref = next_cell st;
          st' = st\<lparr>cells := (cells st)(ref := opts), next_cell := Suc ref\<rparr>;
          self = \<lparr>url_template = url, options_ref = ref, repo_name = nm, resolved_url = None,
                  r_arch = a, packages = [], remote = None, scanned = False\<rparr>
      in if do_scan then
           (case scan runtime_arch read_index self of
              Inl e \<Rightarrow> Inl e
            | Inr self' \<Rightarrow> Inr (self', st'))
         else Inr (self, st'))"

section \<open>packages/__init__.py: recipes and the registry\<close>

text \<open>
  A recipe. Python compares \<open>Pkgbuild\<close> objects by identity (the sets of recipes hash
  them so); a recipe is modelled by the record of its fields, so two recipes are the same
  object exactly when their records are equal.
\<close>

record Pkgbuild =
  name :: string
  version :: string
  depends :: "string list"
  provides :: "string list"
  replaces :: "string list"
  local_depends :: "string list"
  repo :: string
  mode :: string
  path :: string

text \<open>
  Modelled from the spec: the class \<open>Pkgbuild\<close> (\<open>packages/pkgbuild.py\<close>) and its method
  \<open>names()\<close> are not among the sources. The spec defines
  \<open>names(r) = {r.name} \<union> r.provides \<union> r.replaces\<close>.
\<close>

definition names :: "Pkgbuild \<Rightarrow> string set" where
  "names r = {name r} \<union> set (provides r) \<union> set (replaces r)"

text \<open>
  A \<open>dict[str, Pkgbuild]\<close> keeps its keys in insertion order; it is an association list
  with distinct keys. \<open>d[k] = v\<close> is \<^const>\<open>AList.update\<close> (an existing key keeps its
  place), \<open>k in d\<close> and \<open>d[k]\<close> are \<^const>\<open>map_of\<close>, \<open>d.values()\<close> is \<open>map snd\<close>.
\<close>

type_synonym registry = "(string \<times> Pkgbuild) list"

text \<open>
  A set of recipes is a list without repetitions. The order in which Python iterates over
  a set is unspecified: where the sources iterate over one, the model iterates over
  \<open>iter xs\<close>, for a parameter \<open>iter\<close> that rearranges the elements.
\<close>

definition set_add :: "'a \<Rightarrow> 'a list \<Rightarrow> 'a list" where
  "set_add x xs = (if x \<in> set xs then xs else xs @ [x])"


subsection \<open>discover\_packages\<close>

text \<open>
  Listing the recipe directories and parsing them is in \<open>parse_pkgbuild\<close> and the chroot
  subsystem; \<open>results\<close>, the parsed recipes in order, is the input here. The first loop
  fills the dictionary, the second sets \<open>local_depends\<close> of every value.
\<close>

definition register :: "Pkgbuild \<Rightarrow> registry \<Rightarrow> registry" where
  "register package pkgs =
     fold (\<lambda>nm acc. AList.update nm package acc) (name package # replaces package) pkgs"

definition dep_found :: "registry \<Rightarrow> string \<Rightarrow> bool" where
  "dep_found pkgs dep =
     (dep \<in> set (map fst pkgs) \<or> list_ex (\<lambda>p. dep \<in> names p) (map snd pkgs))"

text \<open>
  The second loop mutates each value object in place. The search for \<open>dep\<close> reads only the
  keys and \<open>names()\<close>, which the mutation leaves alone, so every value is replaced by the
  same function of itself; an object that sits under several keys gets the same result
  under each.
\<close>

definition set_local_depends :: "registry \<Rightarrow> Pkgbuild \<Rightarrow> Pkgbuild" where
  "set_local_depends pkgs package =
     package\<lparr>local_depends :=
       fold (\<lambda>dep ld. if dep_found pkgs dep then ld else remove1 dep ld)
         (depends package) (depends package)\<rparr>"

definition discover_packages :: "Pkgbuild list \<Rightarrow> registry" where
  "discover_packages results =
     (let pkgs = fold register results []
      in map (\<lambda>(k, p). (k, set_local_depends pkgs p)) pkgs)"

subsection \<open>filter\_packages\<close>


subsection \<open>generate\_dependency\_chain\<close>

record chain_state =
  visited :: "Pkgbuild set"
  visited_names :: "string set"
  dep_levels :: "Pkgbuild list list"

definition visit :: "Pkgbuild \<Rightarrow> chain_state \<Rightarrow> chain_state" where
  "visit package st =
     st\<lparr>visited := insert package (visited st),
        visited_names := visited_names st \<union> names package\<rparr>"

text \<open>\<open>dep_levels[i].add(pkg)\<close> and \<open>dep_levels[i].remove(pkg)\<close>.\<close>

definition level_add :: "nat \<Rightarrow> Pkgbuild \<Rightarrow> chain_state \<Rightarrow> chain_state" where
  "level_add i pkg st =
     st\<lparr>dep_levels := (dep_levels st)[i := set_add pkg (dep_levels st ! i)]\<rparr>"

definition level_remove :: "nat \<Rightarrow> Pkgbuild \<Rightarrow> chain_state \<Rightarrow> chain_state" where
  "level_remove i pkg st =
     st\<lparr>dep_levels := (dep_levels st)[i := removeAll pkg (dep_levels st ! i)]\<rparr>"

text \<open>
  The generators \<open>get_dependencies\<close> and \<open>get_recursive_dependencies\<close>, run by their one
  consumer, the loop that fills level 0. \<open>get_recursive_dependencies n repo ds st\<close> walks
  the dependency names \<open>ds\<close> of one package: a name already visited is skipped, a name in
  the registry is visited and yielded, which here runs the body of the consuming loop
  (add to level 0, visit again), and then the generator recurses into the package found
  before it goes on with the next name. The fuel \<open>n\<close> bounds the depth of the recursion;
  \<open>None\<close> says that the depth was not enough (Python then raises \<open>RecursionError\<close>).
\<close>

fun get_recursive_dependencies :: "nat \<Rightarrow> registry \<Rightarrow> string list \<Rightarrow> chain_state
    \<Rightarrow> chain_state option" where
  "get_recursive_dependencies 0 package_repo ds st = None"
| "get_recursive_dependencies (Suc n) package_repo [] st = Some st"
| "get_recursive_dependencies (Suc n) package_repo (dep_name # ds) st =
     (if dep_name \<in> visited_names st then get_recursive_dependencies (Suc n) package_repo ds st
      else
        (case map_of package_repo dep_name of
           None \<Rightarrow> get_recursive_dependencies (Suc n) package_repo ds st
         | Some dep_pkg \<Rightarrow>
             (case get_recursive_dependencies n package_repo (depends dep_pkg)
                     (visit dep_pkg (level_add 0 dep_pkg (visit dep_pkg st))) of
                None \<Rightarrow> None
              | Some st' \<Rightarrow> get_recursive_dependencies (Suc n) package_repo ds st')))"

text \<open>The loop \<open>for package in to_build\<close> that initialises level 0.\<close>

fun init_level :: "nat \<Rightarrow> registry \<Rightarrow> Pkgbuild list \<Rightarrow> chain_state \<Rightarrow> chain_state option" where
  "init_level n package_repo [] st = Some st"
| "init_level n package_repo (package # rest) st =
     (case get_recursive_dependencies n package_repo (depends package)
             (level_add 0 package (visit package st)) of
        None \<Rightarrow> None
      | Some st' \<Rightarrow> init_level n package_repo rest st')"

text \<open>
  The body of \<open>for pkg in level_copy\<close>. First the loop over \<open>other_pkg\<close>: the state carries
  \<open>modified\<close> and \<open>pkg_done\<close>. The innermost loop over \<open>other_pkg.depends\<close> moves \<open>pkg\<close> at the
  first name that is one of \<open>pkg.names()\<close> and breaks.
\<close>

definition move_up :: "nat \<Rightarrow> Pkgbuild \<Rightarrow> chain_state \<Rightarrow> chain_state" where
  "move_up level pkg st = level_add (Suc level) pkg (level_remove level pkg st)"

fun scan_others :: "nat \<Rightarrow> Pkgbuild \<Rightarrow> Pkgbuild list \<Rightarrow> chain_state \<times> bool \<times> bool
    \<Rightarrow> chain_state \<times> bool \<times> bool" where
  "scan_others level pkg [] s = s"
| "scan_others level pkg (other_pkg # rest) (st, modified, pkg_done) =
     (if pkg = other_pkg then scan_others level pkg rest (st, modified, pkg_done)
      else if pkg_done then (st, modified, pkg_done)
      else if list_ex (\<lambda>dep_name. dep_name \<in> names pkg) (depends other_pkg)
        then scan_others level pkg rest (move_up level pkg st, True, True)
        else scan_others level pkg rest (st, modified, pkg_done))"

text \<open>Then the loop over \<open>pkg.depends\<close> that adds unvisited dependencies to the level.\<close>

fun add_new_deps :: "registry \<Rightarrow> nat \<Rightarrow> string list \<Rightarrow> chain_state \<times> bool
    \<Rightarrow> chain_state \<times> bool" where
  "add_new_deps package_repo level [] s = s"
| "add_new_deps package_repo level (dep_name # ds) (st, modified) =
     (if dep_name \<in> visited_names st then add_new_deps package_repo level ds (st, modified)
      else
        (case map_of package_repo dep_name of
           None \<Rightarrow> add_new_deps package_repo level ds (st, modified)
         | Some dep_pkg \<Rightarrow>
             add_new_deps package_repo level ds
               (visit dep_pkg (level_add level dep_pkg st), True)))"

definition scan_pkg :: "registry \<Rightarrow> nat \<Rightarrow> Pkgbuild list \<Rightarrow> Pkgbuild \<Rightarrow> chain_state \<times> bool
    \<Rightarrow> chain_state \<times> bool" where
  "scan_pkg package_repo level level_copy pkg s =
     (case s of (st, modified) \<Rightarrow>
        if pkg \<notin> set (dep_levels st ! level) then (st, modified)
        else
          (case scan_others level pkg level_copy (st, modified, False) of
             (st', modified', pkg_done) \<Rightarrow>
               add_new_deps package_repo level (depends pkg) (st', modified')))"

text \<open>
  The \<open>while\<close> loop. It need not terminate, so it takes fuel: \<open>None\<close> says that the fuel ran
  out before the loop was left. \<open>Some (Inl e)\<close> is a raised exception, \<open>Some (Inr st)\<close> the
  state at the exit of the loop.
\<close>

record loop_state =
  chain :: chain_state
  level :: nat
  repeat_count :: nat
  last_level :: "Pkgbuild set option"

fun chain_loop :: "nat \<Rightarrow> (Pkgbuild list \<Rightarrow> Pkgbuild list) \<Rightarrow> registry \<Rightarrow> loop_state
    \<Rightarrow> (error + chain_state) option" where
  "chain_loop 0 iter package_repo ls = None"
| "chain_loop (Suc n) iter package_repo ls =
     (if dep_levels (chain ls) ! level ls = [] then Some (Inr (chain ls))
      else if level ls > 100
        then Some (Inl (Failure ''Dependency chain reached 100 levels depth''))
      else
        (let level_copy = iter (dep_levels (chain ls) ! level ls);
             (st, modified) =
                fold (scan_pkg package_repo (level ls) level_copy) level_copy (chain ls, False);
             now = set (dep_levels st ! level ls);
             repeat_count' = (if last_level ls = Some now then repeat_count ls + 1 else 0)
         in if repeat_count' > 10
            then Some (Inl (Failure ''Probable dependency cycle detected''))
            else chain_loop n iter package_repo
                   \<lparr>chain = (if modified then st
                             else st\<lparr>dep_levels := dep_levels st @ [[]]\<rparr>),
                    level = (if modified then level ls else level ls + 1),
                    repeat_count = repeat_count',
                    last_level = Some now\<rparr>))"

text \<open>
  \<open>to_build\<close> is the requested recipes in the order the iterable hands them out. The one
  fuel bounds both the recursion depth of the generators and the number of passes of the
  loop. The result is the list of levels reversed, empty levels dropped.
\<close>

definition generate_dependency_chain :: "nat \<Rightarrow> (Pkgbuild list \<Rightarrow> Pkgbuild list) \<Rightarrow> registry
    \<Rightarrow> Pkgbuild list \<Rightarrow> (error + Pkgbuild list list) option" where
  "generate_dependency_chain fuel iter package_repo to_build =
     (case init_level fuel package_repo to_build
             \<lparr>visited = {}, visited_names = {}, dep_levels = [[], []]\<rparr> of
        None \<Rightarrow> None
      | Some st0 \<Rightarrow>
          (case chain_loop fuel iter package_repo
                  \<lparr>chain = st0, level = 0, repeat_count = 0, last_level = None\<rparr> of
             None \<Rightarrow> None
           | Some (Inl e) \<Rightarrow> Some (Inl e)
           | Some (Inr st) \<Rightarrow> Some (Inr (filter (\<lambda>lvl. lvl \<noteq> []) (rev (dep_levels st))))))"

subsection \<open>get\_dependants\<close>


subsection \<open>Example recipes\<close>

text \<open>A recipe with the given name, \<open>depends\<close>, \<open>provides\<close> and \<open>replaces\<close>, for the examples.\<close>

definition recipe :: "string \<Rightarrow> string list \<Rightarrow> string list \<Rightarrow> string list \<Rightarrow> Pkgbuild" where
  "recipe n ds ps rs =
     \<lparr>name = n, version = ''1.0-1'', depends = ds, provides = ps, replaces = rs,
      local_depends = [], repo = ''main'', mode = ''host'', path = ''main/'' @ n\<rparr>"


section \<open>packages/__init__.py: the filesystem and the local repositories\<close>

text \<open>
  The filesystem is a map from paths to file contents, together with the log of what was
  done to it: files copied, files removed, files downloaded, external commands run,
  recipes built. A path names a file exactly when the map is defined there; directories
  are not tracked (\<open>os.makedirs\<close> changes nothing here, and a path is the same file as
  another exactly when the strings are equal).
\<close>

datatype action =
    Copy string string
  | Unlink string
  | Download string string
  | Run "string list"
  | Build string string

record world =
  files :: "string \<rightharpoonup> string"
  log :: "action list"

datatype response = Body string | HTTPError nat | URLError

text \<open>
  What the sources take from the configuration, from \<open>constants\<close> and from outside the
  process:
  \<^item> \<open>ARCHES\<close>, \<open>config.get_package_dir(arch)\<close>, \<open>config.get_path('pacman')\<close>,
    \<open>config.get_path('pkgbuilds')\<close>;
  \<^item> \<open>repo_add\<close>: the external program \<open>repo-add\<close>, from its command line and the files to
    its exit status and the files it leaves;
  \<^item> \<open>listdir\<close>: \<open>os.listdir\<close>, the names in a directory of the given files;
  \<^item> \<open>packagelist\<close>: exit status and standard output of \<open>makepkg --packagelist\<close>, run in
    the native build chroot for a recipe and a target arch;
  \<^item> \<open>urlopen\<close>: a download, which gives the body, fails with an \<open>HTTPError\<close> or fails
    otherwise;
  \<^item> \<open>build_package\<close>: what \<open>build_package\<close>, which drives the chroot subsystem and
    \<open>makepkg\<close>, does to the files, or the exception it raises;
  \<^item> \<open>kupfer_https\<close>, see \<open>try_download_package\<close> below.
\<close>

record env =
  ARCHES :: "string list"
  package_dir :: "string \<Rightarrow> string"
  pacman_dir :: string
  pkgbuilds_dir :: string
  repo_add :: "string list \<Rightarrow> (string \<rightharpoonup> string) \<Rightarrow> int \<times> (string \<rightharpoonup> string)"
  listdir :: "(string \<rightharpoonup> string) \<Rightarrow> string \<Rightarrow> string list"
  packagelist :: "Pkgbuild \<Rightarrow> string \<Rightarrow> int \<times> string"
  urlopen :: "string \<Rightarrow> response"
  build_package :: "Pkgbuild \<Rightarrow> string \<Rightarrow> (string \<rightharpoonup> string) \<Rightarrow> error + (string \<rightharpoonup> string)"
  kupfer_https :: "string \<Rightarrow> (string \<times> Repo) list"

text \<open>Sequencing of steps that can raise.\<close>

definition and_then :: "error + 'a \<Rightarrow> ('a \<Rightarrow> error + 'b) \<Rightarrow> error + 'b" where
  "and_then r f = (case r of Inl e \<Rightarrow> Inl e | Inr x \<Rightarrow> f x)"

definition path_exists :: "world \<Rightarrow> string \<Rightarrow> bool" where
  "path_exists w p = (files w p \<noteq> None)"

text \<open>
  \<open>shutil.copy\<close> and \<open>shutil.copyfile\<close> onto a file path: they raise when the source is
  missing and when source and destination are the same file.
\<close>

definition copy_file :: "string \<Rightarrow> string \<Rightarrow> world \<Rightarrow> error + world" where
  "copy_file src dst w =
     (if src = dst then Inl (SameFileError src)
      else
        (case files w src of
           None \<Rightarrow> Inl (FileNotFoundError src)
         | Some c \<Rightarrow> Inr (w\<lparr>files := (files w)(dst \<mapsto> c), log := log w @ [Copy src dst]\<rparr>)))"

definition unlink :: "string \<Rightarrow> world \<Rightarrow> error + world" where
  "unlink p w =
     (if path_exists w p
      then Inr (w\<lparr>files := (files w)(p := None), log := log w @ [Unlink p]\<rparr>)
      else Inl (FileNotFoundError p))"

definition run_repo_add :: "env \<Rightarrow> string list \<Rightarrow> world \<Rightarrow> int \<times> world" where
  "run_repo_add e cmd w =
     (case repo_add e cmd (files w) of
        (rc, fs) \<Rightarrow> (rc, w\<lparr>files := fs, log := log w @ [Run cmd]\<rparr>))"

subsection \<open>add\_file\_to\_repo\<close>

text \<open>The body of the loop \<open>for ext in ['db', 'files']\<close>.\<close>

definition normalise_index :: "string \<Rightarrow> string \<Rightarrow> string \<Rightarrow> world \<Rightarrow> error + world" where
  "normalise_index repo_dir repo_nm ext w =
     (let file = path_join repo_dir (repo_nm @ ''.'' @ ext)
      in and_then
           (if path_exists w (file @ ''.tar.xz'')
            then and_then (unlink file w) (copy_file (file @ ''.tar.xz'') file)
            else Inr w)
           (\<lambda>w1. let old = file @ ''.tar.xz.old''
                 in if path_exists w1 old then unlink old w1 else Inr w1))"

definition repo_add_cmd :: "string \<Rightarrow> string \<Rightarrow> string \<Rightarrow> string list" where
  "repo_add_cmd repo_dir repo_nm target_file =
     [''repo-add'', ''--remove'', path_join repo_dir (repo_nm @ ''.db.tar.xz''), target_file]"

definition add_file_to_repo :: "env \<Rightarrow> string \<Rightarrow> string \<Rightarrow> string \<Rightarrow> world \<Rightarrow> error + world" where
  "add_file_to_repo e file_path repo_nm arch w =
     (let repo_dir = path_join (package_dir e arch) repo_nm;
          pacman_cache_dir = path_join (pacman_dir e) arch;
          file_name = basename file_path;
          target_file = path_join repo_dir file_name
      in and_then
           (if file_path \<noteq> target_file
            then and_then (copy_file file_path target_file w) (unlink file_path)
            else Inr w)
           (\<lambda>w1. and_then
              (let cache_file = path_join pacman_cache_dir file_name
               in if path_exists w1 cache_file then unlink cache_file w1 else Inr w1)
              (\<lambda>w2. case run_repo_add e (repo_add_cmd repo_dir repo_nm target_file) w2 of
                      (rc, w3) \<Rightarrow>
                        if rc \<noteq> 0 then Inl (Failure ''Failed add package to repo'')
                        else and_then (normalise_index repo_dir repo_nm ''db'' w3)
                               (normalise_index repo_dir repo_nm ''files''))))"

subsection \<open>strip\_compression\_extension\<close>

definition strip_compression_extension :: "string \<Rightarrow> string" where
  "strip_compression_extension filename =
     (case find (\<lambda>ext. endswith filename (''.pkg.tar.'' @ ext)) [''zst'', ''xz'', ''gz'', ''bz2''] of
        Some ext \<Rightarrow> take (length filename - (length ext + 1)) filename
      | None \<Rightarrow> filename)"

subsection \<open>add\_package\_to\_repo\<close>




subsection \<open>try\_download\_package\<close>

text \<open>
  Modelled from the spec: \<open>try_download_package\<close> calls \<open>get_kupfer_https(arch, scan=True)\<close>
  and \<open>repo.resolve_url()\<close>, of the module \<open>distro.distro\<close>; the \<open>distro.py\<close> among the
  sources defines neither that parameter nor that method. As the spec reads them, the
  first is the remote distro with its repos scanned, here the parameter \<open>kupfer_https\<close>
  (the dict of repos for an arch), and the second is the resolved URL of the scanned repo.
  \<open>HTTPError\<close> is caught and answers \<open>False\<close>; any other failure of the download
  propagates.
\<close>

definition try_download_package :: "env \<Rightarrow> string \<Rightarrow> Pkgbuild \<Rightarrow> string \<Rightarrow> world
    \<Rightarrow> error + bool \<times> world" where
  "try_download_package e dest_file_path package arch w =
     (let filename = basename dest_file_path;
          pkgname = name package;
          repo_nm = repo package;
          repos = kupfer_https e arch
      in case map_of repos repo_nm of
           None \<Rightarrow> Inr (False, w)
         | Some rp \<Rightarrow>
             (case map_of (packages rp) pkgname of
                None \<Rightarrow> Inr (False, w)
              | Some repo_pkg \<Rightarrow>
                  if pi_version repo_pkg \<noteq> version package then Inr (False, w)
                  else if pi_filename repo_pkg \<noteq> filename then Inr (False, w)
                  else
                    (let url = (case resolved_url rp of None \<Rightarrow> ''None'' | Some u \<Rightarrow> u)
                                 @ ''/'' @ filename
                     in case urlopen e url of
                          Body c \<Rightarrow>
                            Inr (True, w\<lparr>files := (files w)(dest_file_path \<mapsto> c),
                                        log := log w @ [Download url dest_file_path]\<rparr>)
                        | HTTPError code \<Rightarrow> Inr (False, w)
                        | URLError \<Rightarrow> Inl (Failure ''URLError''))))"

subsection \<open>check\_package\_version\_built\<close>

text \<open>
  The first loop over \<open>ARCHES\<close>: another arch's repo is searched for the any-arch package;
  the first hit is copied to the target, added to the repo, and ends the loop.
\<close>

fun find_in_other_arches :: "env \<Rightarrow> string \<Rightarrow> string \<Rightarrow> string \<Rightarrow> string \<Rightarrow> string list
    \<Rightarrow> bool \<times> world \<Rightarrow> error + bool \<times> world" where
  "find_in_other_arches e repo_nm arch bn target_repo_file [] s = Inr s"
| "find_in_other_arches e repo_nm arch bn target_repo_file (repo_arch # rest) (missing, w) =
     (if repo_arch = arch
      then find_in_other_arches e repo_nm arch bn target_repo_file rest (missing, w)
      else
        (let other_repo_path = path_join3 (package_dir e repo_arch) repo_nm bn
         in if path_exists w other_repo_path
            then and_then (copy_file other_repo_path target_repo_file w)
                   (\<lambda>w1. and_then (add_file_to_repo e target_repo_file repo_nm arch w1)
                      (\<lambda>w2. Inr (False, w2)))
            else find_in_other_arches e repo_nm arch bn target_repo_file rest (missing, w)))"

text \<open>The second loop over \<open>ARCHES\<close>: the package is copied to the arches that lack it.\<close>

fun copy_to_missing_arches :: "env \<Rightarrow> string \<Rightarrow> string \<Rightarrow> string \<Rightarrow> string \<Rightarrow> string list
    \<Rightarrow> world \<Rightarrow> error + world" where
  "copy_to_missing_arches e repo_nm arch bn target_repo_file [] w = Inr w"
| "copy_to_missing_arches e repo_nm arch bn target_repo_file (repo_arch # rest) w =
     (if repo_arch = arch then copy_to_missing_arches e repo_nm arch bn target_repo_file rest w
      else
        (let copy_target = path_join3 (package_dir e repo_arch) repo_nm bn
         in if \<not> path_exists w copy_target
            then and_then (copy_file target_repo_file copy_target w)
                   (\<lambda>w1. and_then (add_file_to_repo e copy_target repo_nm repo_arch w1)
                      (copy_to_missing_arches e repo_nm arch bn target_repo_file rest))
            else copy_to_missing_arches e repo_nm arch bn target_repo_file rest w))"

text \<open>
  The body of the loop over the lines of the package list, in its two parts; the state is
  \<open>missing\<close> and the world. First \<open>if os.path.exists(file) or (try_download and
  try_download_package(...))\<close>:
\<close>

definition find_or_download :: "env \<Rightarrow> Pkgbuild \<Rightarrow> string \<Rightarrow> bool \<Rightarrow> string \<Rightarrow> bool \<times> world
    \<Rightarrow> error + bool \<times> world" where
  "find_or_download e package arch try_download file s =
     (case s of (missing, w) \<Rightarrow>
        if path_exists w file
        then and_then (add_file_to_repo e file (repo package) arch w) (\<lambda>w1. Inr (False, w1))
        else if try_download
        then and_then (try_download_package e file package arch w)
               (\<lambda>(ok, w1).
                  if ok
                  then and_then (add_file_to_repo e file (repo package) arch w1)
                         (\<lambda>w2. Inr (False, w2))
                  else Inr (missing, w1))
        else Inr (missing, w))"

text \<open>Then the block for an any-arch package:\<close>

definition share_any_arch :: "env \<Rightarrow> Pkgbuild \<Rightarrow> string \<Rightarrow> string \<Rightarrow> bool \<times> world
    \<Rightarrow> error + bool \<times> world" where
  "share_any_arch e package arch bn s =
     (case s of (missing, w) \<Rightarrow>
        (let target_repo_file = path_join3 (package_dir e arch) (repo package) bn
         in and_then
              (if path_exists w target_repo_file then Inr (False, w)
               else find_in_other_arches e (repo package) arch bn target_repo_file
                      (ARCHES e) (missing, w))
              (\<lambda>(missing', w').
                 if path_exists w' target_repo_file
                 then and_then
                        (copy_to_missing_arches e (repo package) arch bn target_repo_file
                           (ARCHES e) w')
                        (\<lambda>w''. Inr (missing', w''))
                 else Inr (missing', w'))))"

definition check_line :: "env \<Rightarrow> Pkgbuild \<Rightarrow> string \<Rightarrow> bool \<Rightarrow> string \<Rightarrow> bool \<times> world
    \<Rightarrow> error + bool \<times> world" where
  "check_line e package arch try_download line s =
     (if line = [] then Inr s
      else
        (let bn = basename line;
             file = path_join3 (package_dir e arch) (repo package) bn;
             filename_stripped = strip_compression_extension file
         in if \<not> endswith filename_stripped ''.pkg.tar'' then Inr s
            else and_then (find_or_download e package arch try_download file s)
                   (\<lambda>s'. if endswith filename_stripped ''any.pkg.tar''
                         then share_any_arch e package arch bn s'
                         else Inr s')))"

fun check_lines :: "env \<Rightarrow> Pkgbuild \<Rightarrow> string \<Rightarrow> bool \<Rightarrow> string list \<Rightarrow> bool \<times> world
    \<Rightarrow> error + bool \<times> world" where
  "check_lines e package arch try_download [] s = Inr s"
| "check_lines e package arch try_download (line # rest) s =
     and_then (check_line e package arch try_download line s)
       (check_lines e package arch try_download rest)"

text \<open>
  \<open>check_package_version_built\<close>. Setting up the native build chroot and running
  \<open>makepkg --packagelist\<close> in it belong to the chroot subsystem: the world given is the one
  they leave, and the result of the command is \<open>packagelist\<close>.
\<close>

definition check_package_version_built :: "env \<Rightarrow> Pkgbuild \<Rightarrow> string \<Rightarrow> bool \<Rightarrow> world
    \<Rightarrow> error + bool \<times> world" where
  "check_package_version_built e package arch try_download w =
     (case packagelist e package arch of
        (returncode, stdout) \<Rightarrow>
          if returncode \<noteq> 0 then Inl (Failure ''Failed to get package list'')
          else and_then
                 (check_lines e package arch try_download (str_split [CHR 0x0A] stdout) (True, w))
                 (\<lambda>(missing, w'). Inr (\<not> missing, w')))"

subsection \<open>get\_unbuilt\_package\_levels and build\_packages\<close>








subsection \<open>An example environment\<close>

text \<open>
  Two arches; \<open>repo-add\<close> succeeds and leaves the files alone, nothing can be downloaded,
  a build succeeds and leaves the files alone, and the package list and the directory of
  a recipe are given.
\<close>

definition example_env :: "(Pkgbuild \<Rightarrow> string \<Rightarrow> int \<times> string) \<Rightarrow> (string \<Rightarrow> string list) \<Rightarrow> env" where
  "example_env pl ls =
     \<lparr>ARCHES = [''x86_64'', ''aarch64''],
      package_dir = (\<lambda>a. ''/packages/'' @ a),
      pacman_dir = ''/pacman'',
      pkgbuilds_dir = ''/pkgbuilds'',
      repo_add = (\<lambda>cmd fs. (0, fs)),
      listdir = (\<lambda>fs d. ls d),
      packagelist = pl,
      urlopen = (\<lambda>url. HTTPError 404),
      build_package = (\<lambda>p a fs. Inr fs),
      kupfer_https = (\<lambda>a. [])\<rparr>"

text \<open>
  In the words of the amended claim C1: the line of the package list names an artifact
  that is located in the world \<open>w\<close>. The line is not empty and its file, stripped of the
  compression extension, ends in \<open>.pkg.tar\<close>; and the file is present in the repo of the
  target arch, or downloading is asked for and \<open>try_download_package\<close> obtains it, or it is
  an any-arch package present in the repo of another arch.
\<close>

definition located :: "env \<Rightarrow> Pkgbuild \<Rightarrow> string \<Rightarrow> bool \<Rightarrow> world \<Rightarrow> string \<Rightarrow> bool" where
  "located e package arch try_download w line =
     (let bn = basename line;
          file = path_join3 (package_dir e arch) (repo package) bn;
          stripped = strip_compression_extension file
      in line \<noteq> [] \<and> endswith stripped ''.pkg.tar'' \<and>
         (path_exists w file
          \<or> (try_download \<and>
              (case try_download_package e file package arch w of
                 Inl err \<Rightarrow> False
               | Inr (ok, w') \<Rightarrow> ok))
          \<or> (endswith stripped ''any.pkg.tar'' \<and>
              list_ex (\<lambda>repo_arch. repo_arch \<noteq> arch \<and>
                         path_exists w (path_join3 (package_dir e repo_arch) (repo package) bn))
                (ARCHES e))))"

section \<open>Notions for the statements and proofs about the dependency chain\<close>

text \<open>
  In the words of the amended claim C2: every key of the registry is one of the names of
  the recipe it maps to, as in every registry that \<open>discover_packages\<close> builds.
\<close>

definition well_keyed :: "registry \<Rightarrow> bool" where
  "well_keyed rp = list_all (\<lambda>(k, p). k \<in> names p) rp"

text \<open>\<open>other\<close> has a dependency that is one of the names of \<open>pkg\<close>: the test of the innermost loop.\<close>

definition depends_on :: "Pkgbuild \<Rightarrow> Pkgbuild \<Rightarrow> bool" where
  "depends_on other pkg = list_ex (\<lambda>dep_name. dep_name \<in> names pkg) (depends other)"

text \<open>Some other package of \<open>level_copy\<close> depends on \<open>pkg\<close>: then the pass moves \<open>pkg\<close> up.\<close>

definition movable :: "Pkgbuild list \<Rightarrow> Pkgbuild \<Rightarrow> bool" where
  "movable level_copy pkg = list_ex (\<lambda>other. other \<noteq> pkg \<and> depends_on other pkg) level_copy"

text \<open>Every dependency of every package in the levels is visited or not in the registry.\<close>

definition closed :: "registry \<Rightarrow> chain_state \<Rightarrow> bool" where
  "closed rp st =
     list_all (\<lambda>lvl. list_all (\<lambda>p. list_all (\<lambda>d. d \<in> visited_names st \<or> map_of rp d = None)
                                         (depends p)) lvl)
       (dep_levels st)"

text \<open>No package of a higher level depends on a package of a lower level.\<close>

definition levels_ordered :: "Pkgbuild list list \<Rightarrow> bool" where
  "levels_ordered dl =
     sorted_wrt (\<lambda>lower higher. list_all (\<lambda>q. list_all (\<lambda>p. \<not> depends_on p q) higher) lower) dl"

section \<open>Properties\<close>

subsection \<open>Strings\<close>

lemma str_split_not_Nil: "str_split sep s \<noteq> []"
proof (induction sep s rule: str_split.induct)
  case (1 sep s)
  show ?case
    by (subst str_split.simps) (simp split: list.splits)
qed

lemma file_path_split:
  assumes "startswith url ''file://''"
  shows "\<exists>a p rest. str_split ''file://'' (url @ t) = a # p # rest"
proof -
  from assms obtain r where r: "url = ''file://'' @ r"
    by (auto simp: startswith_def prefix_def)
  have "str_split ''file://'' (url @ t) = [] # str_split ''file://'' (r @ t)"
    unfolding r by (subst str_split.simps) simp
  moreover obtain p rest where "str_split ''file://'' (r @ t) = p # rest"
    using str_split_not_Nil by (cases "str_split ''file://'' (r @ t)") auto
  ultimately show ?thesis by simp
qed

subsection \<open>resolve\_url and Repo.scan\<close>

text \<open>
  C6. \<open>resolve_url\<close> replaces \<open>$repo\<close> by the repo name, but \<open>$arch\<close> by
  \<open>config.runtime['arch']\<close>, not by its parameter \<open>arch\<close>: on an \<open>x86_64\<close> host the
  template resolved for \<open>aarch64\<close> names \<open>x86_64\<close>, and a repo constructed for \<open>aarch64\<close>
  and scanned gets that URL.
\<close>

theorem resolve_url_uses_runtime_arch:
  "resolve_url ''x86_64'' ''https://host/$arch/$repo'' ''main'' ''aarch64''
     = ''https://host/x86_64/main''
   \<and> (case Repo_init ''x86_64'' (\<lambda>is_remote p. Inr []) ''main'' ''https://host/$arch/$repo''
             ''aarch64'' Map.empty True initial_store of
         Inl e \<Rightarrow> False
       | Inr (r, st) \<Rightarrow> r_arch r = ''aarch64'' \<and> resolved_url r = Some ''https://host/x86_64/main'')"
  by code_simp

text \<open>
  C7, as the claim states it, fails: an archive whose first \<open>desc\<close> entry has a name but
  no version makes \<open>scan\<close> raise \<open>KeyError\<close>; the well-formed entry after it is not read.
\<close>

theorem scan_malformed_desc_counterexample:
  "scan ''x86_64''
     (\<lambda>is_remote p. Inr [(''foo-1.0-1/desc'', ''%NAME%\<newline>foo\<newline>''),
        (''bar-1.0-1/desc'',
         ''%NAME%\<newline>bar\<newline>\<newline>%VERSION%\<newline>1.0-1\<newline>\<newline>%FILENAME%\<newline>bar-1.0-1-any.pkg.tar.zst\<newline>'')])
     \<lparr>url_template = ''https://host/$arch/$repo'', options_ref = 1, repo_name = ''main'',
       resolved_url = None, r_arch = ''x86_64'', packages = [], remote = None,
       scanned = False\<rparr>
   = Inl (KeyError ''VERSION'')"
  by code_simp

lemma parse_desc_error: "parse_desc c u = Inl e \<Longrightarrow> \<exists>k. e = KeyError k"
  by (auto simp: parse_desc_def Let_def split: option.splits)

lemma scan_members_malformed:
  assumes "(n, c) \<in> set nodes" "basename n = ''desc''" "parse_desc c (Some url) = Inl e"
  shows "\<exists>k. scan_members url nodes pkgs = Inl (KeyError k)"
  using assms
proof (induction nodes arbitrary: pkgs)
  case Nil
  then show ?case by simp
next
  case (Cons node nodes)
  obtain n' c' where node: "node = (n', c')" by (cases node)
  show ?case
  proof (cases "basename n' = ''desc''")
    case False
    with Cons node show ?thesis by auto
  next
    case True
    show ?thesis
    proof (cases "parse_desc c' (Some url)")
      case (Inl e')
      with True node parse_desc_error[OF Inl] show ?thesis by auto
    next
      case (Inr pkg)
      with Cons True node show ?thesis by auto
    qed
  qed
qed

text \<open>
  C7, amended: when the index can be read and one of its \<open>desc\<close> entries is malformed
  (\<open>parse_desc\<close> cannot recover \<open>NAME\<close>, \<open>VERSION\<close> and \<open>FILENAME\<close> from it), \<open>scan\<close> raises a
  \<open>KeyError\<close>. No entry is skipped.
\<close>

theorem scan_malformed_desc_raises:
  assumes "\<And>is_remote p. read_index is_remote p = Inr nodes"
    and "(n, c) \<in> set nodes" and "basename n = ''desc''"
    and "parse_desc c (Some (resolve_url rt (url_template self) (repo_name self) (r_arch self)))
           = Inl e"
  shows "\<exists>k. scan rt read_index self = Inl (KeyError k)"
proof -
  let ?url = "resolve_url rt (url_template self) (repo_name self) (r_arch self)"
  obtain k where k: "scan_members ?url nodes (packages self) = Inl (KeyError k)"
    using scan_members_malformed[OF assms(2,3,4)] by blast
  show ?thesis
  proof (cases "startswith ?url ''file://''")
    case True
    from file_path_split[OF True] obtain a p rest where
      "str_split ''file://'' (?url @ ''/'' @ repo_name self @ ''.db'') = a # p # rest" by blast
    with True k assms(1) show ?thesis
      by (simp add: scan_def Let_def)
  next
    case False
    with k assms(1) show ?thesis
      by (simp add: scan_def Let_def)
  qed
qed

theorem scan_malformed_desc_raises_witness:
  "\<exists>k. scan ''x86_64''
     (\<lambda>is_remote p. Inr [(''bar-1.0-1/desc'',
         ''%NAME%\<newline>bar\<newline>\<newline>%VERSION%\<newline>1.0-1\<newline>\<newline>%FILENAME%\<newline>bar-1.0-1-any.pkg.tar.zst\<newline>''),
        (''pool/foo-1.0-1/desc'', ''%NAME%\<newline>foo\<newline>\<newline>%VERSION%\<newline>1.0-1\<newline>'')])
     \<lparr>url_template = ''file:///srv/$arch/$repo'', options_ref = 1, repo_name = ''main'',
       resolved_url = None, r_arch = ''x86_64'', packages = [], remote = None,
       scanned = False\<rparr>
   = Inl (KeyError k)"
  by (rule scan_malformed_desc_raises
        [where n = "''pool/foo-1.0-1/desc''"
           and c = "''%NAME%\<newline>foo\<newline>\<newline>%VERSION%\<newline>1.0-1\<newline>''"
           and e = "KeyError ''FILENAME''"])
     code_simp+

text \<open>
  C10. Every \<open>RepoInfo\<close> refers to the one dict of the class: constructing a second
  \<open>RepoInfo\<close> with \<open>{'SigLevel': 'Never'}\<close> changes the options of the first, which was
  constructed with no options. Two \<open>Repo\<close>s, which deep-copy, do not share.
\<close>

theorem RepoInfo_options_shared:
  "(case RepoInfo_init ''https://a/$arch/$repo'' Map.empty initial_store of
      (r1, s1) \<Rightarrow>
        (case RepoInfo_init ''https://b/$arch/$repo'' [''SigLevel'' \<mapsto> ''Never''] s1 of
           (r2, s2) \<Rightarrow>
             RepoInfo_get_options s1 r1 ''SigLevel'' = None
             \<and> RepoInfo_get_options s2 r1 ''SigLevel'' = Some ''Never''
             \<and> options_ref r1 = options_ref r2))
   \<and> (case Repo_init ''x86_64'' (\<lambda>is_remote p. Inr []) ''main'' ''https://a/$arch/$repo''
             ''x86_64'' Map.empty False initial_store of
         Inl e \<Rightarrow> False
       | Inr (r1, s1) \<Rightarrow>
          (case Repo_init ''x86_64'' (\<lambda>is_remote p. Inr []) ''extra'' ''https://b/$arch/$repo''
             ''x86_64'' [''SigLevel'' \<mapsto> ''Never''] False s1 of
             Inl e \<Rightarrow> False
           | Inr (r2, s2) \<Rightarrow>
               cells s2 (options_ref r1) ''SigLevel'' = None
               \<and> cells s2 (options_ref r2) ''SigLevel'' = Some ''Never''))"
  by code_simp

subsection \<open>discover\_packages\<close>

lemma map_of_fold_update:
  "map_of (fold (\<lambda>nm acc. AList.update nm v acc) ns al) n
     = (if n \<in> set ns then Some v else map_of al n)"
  by (induction ns arbitrary: al) (auto simp: update_conv')

lemma map_of_register:
  "map_of (register r al) n = (if n \<in> set (name r # replaces r) then Some r else map_of al n)"
  unfolding register_def by (rule map_of_fold_update)

lemma find_app:
  "find P (xs @ ys) = (case find P xs of None \<Rightarrow> find P ys | Some x \<Rightarrow> Some x)"
  by (induction xs) auto

lemma map_of_fold_register:
  "map_of (fold register rs al) n
     = (case find (\<lambda>r. n \<in> set (name r # replaces r)) (rev rs) of
          Some r \<Rightarrow> Some r
        | None \<Rightarrow> map_of al n)"
proof (induction rs arbitrary: al)
  case Nil
  show ?case by simp
next
  case (Cons r rs)
  show ?case
    by (simp add: Cons.IH find_app map_of_register split: option.splits)
qed

lemma map_of_map_values:
  "map_of (map (\<lambda>(k, p). (k, f p)) al) n = map_option f (map_of al n)"
  by (induction al) auto

text \<open>
  C4, as the claim states it, fails: in scenario S2 recipe \<open>b\<close> provides \<open>foo\<close>, so \<open>foo\<close> is
  one of \<open>names(b)\<close>, but the registry has no key \<open>foo\<close>.
\<close>

theorem discover_packages_provides_counterexample:
  "''foo'' \<in> names (recipe ''b'' [] [''foo''] [])
   \<and> map_of (discover_packages [recipe ''a'' [''foo''] [] [], recipe ''b'' [] [''foo''] []])
         ''foo'' = None"
  by code_simp

text \<open>
  C4, amended: after \<open>discover_packages\<close> the key \<open>n\<close> maps to the last parsed recipe that
  has \<open>n\<close> as its name or among its \<open>replaces\<close> (a later recipe overrides an earlier one),
  with \<open>local_depends\<close> set; a name that is no recipe's name or \<open>replaces\<close> entry, such as
  one that is only provided, is not a key.
\<close>

theorem discover_packages_lookup:
  "map_of (discover_packages results) n
     = map_option (set_local_depends (fold register results []))
         (find (\<lambda>r. n \<in> set (name r # replaces r)) (rev results))"
  by (simp add: discover_packages_def Let_def map_of_map_values map_of_fold_register
      split: option.splits)

subsection \<open>generate\_dependency\_chain: examples\<close>

text \<open>
  C3. The registry \<open>a \<rightarrow> b, b \<rightarrow> a\<close> with both recipes requested, or only \<open>a\<close>: in the first
  pass over level 0 each recipe is moved to level 1 because the other depends on it, level
  0 is then empty, and the loop ends. The function returns the plan \<open>[{a, b}]\<close>; neither
  of the two cycle rules fires. It does so whichever way the sets are iterated.
\<close>

theorem cycle_not_detected:
  "(let reg = discover_packages [recipe ''a'' [''b''] [] [], recipe ''b'' [''a''] [] []]
    in map_option (map_sum id (map (map name)))
         (generate_dependency_chain 20 id reg (map snd reg)) = Some (Inr [[''a'', ''b'']])
     \<and> map_option (map_sum id (map (map name)))
         (generate_dependency_chain 20 rev reg (map snd reg)) = Some (Inr [[''b'', ''a'']])
     \<and> map_option (map_sum id (map (map name)))
         (generate_dependency_chain 20 id reg [snd (hd reg)]) = Some (Inr [[''a'', ''b'']]))"
  by code_simp

subsection \<open>get\_dependants\<close>









subsection \<open>filter\_packages and its callers\<close>










subsection \<open>check\_package\_version\_built\<close>

lemma and_then_Inr:
  "and_then r f = Inr y \<Longrightarrow> \<exists>x. r = Inr x \<and> f x = Inr y"
  by (cases r) (auto simp: and_then_def)

lemma try_download_package_False:
  "try_download_package e dest package arch w = Inr (False, w') \<Longrightarrow> w' = w"
  by (auto simp: try_download_package_def Let_def split: option.splits if_splits response.splits)

lemma find_in_other_arches_none:
  assumes "find_in_other_arches e rn arch bn target archs (m, w) = Inr (m', w')"
    and "\<not> list_ex (\<lambda>a. a \<noteq> arch \<and> path_exists w (path_join3 (package_dir e a) rn bn)) archs"
  shows "m' = m \<and> w' = w"
  using assms by (induction archs) (auto simp: Let_def split: if_splits)

lemma find_in_other_arches_some:
  assumes "find_in_other_arches e rn arch bn target archs (m, w) = Inr (m', w')"
    and "list_ex (\<lambda>a. a \<noteq> arch \<and> path_exists w (path_join3 (package_dir e a) rn bn)) archs"
  shows "m' = False"
  using assms
  by (induction archs) (auto simp: Let_def dest!: and_then_Inr split: if_splits)

lemma find_in_other_arches_keeps_False:
  "find_in_other_arches e rn arch bn target archs (False, w) = Inr (m', w') \<Longrightarrow> m' = False"
  by (induction archs) (auto simp: Let_def dest!: and_then_Inr split: if_splits)

lemma find_or_download_cases:
  assumes "find_or_download e package arch td file (m, w) = Inr (m1, w1)"
  shows "(if path_exists w file
             \<or> (td \<and> (\<exists>w'. try_download_package e file package arch w = Inr (True, w')))
          then m1 = False else m1 = m \<and> w1 = w)"
  using assms
  by (auto simp: find_or_download_def dest!: and_then_Inr dest: try_download_package_False
      split: if_splits)

lemma share_any_arch_cases:
  assumes "share_any_arch e package arch bn (m, w) = Inr (m', w')"
  shows "(if path_exists w (path_join3 (package_dir e arch) (repo package) bn)
             \<or> list_ex (\<lambda>a. a \<noteq> arch \<and>
                   path_exists w (path_join3 (package_dir e a) (repo package) bn)) (ARCHES e)
          then m' = False else m' = m \<and> w' = w)"
proof -
  let ?target = "path_join3 (package_dir e arch) (repo package) bn"
  from assms obtain m2 w2 where
    a: "(if path_exists w ?target then Inr (False, w)
         else find_in_other_arches e (repo package) arch bn ?target (ARCHES e) (m, w))
        = Inr (m2, w2)"
    and b: "(if path_exists w2 ?target
             then and_then (copy_to_missing_arches e (repo package) arch bn ?target (ARCHES e) w2)
                    (\<lambda>w''. Inr (m2, w''))
             else Inr (m2, w2)) = Inr (m', w')"
    by (auto simp: share_any_arch_def Let_def dest!: and_then_Inr)
  from b have m': "m' = m2" and w': "\<not> path_exists w2 ?target \<Longrightarrow> w' = w2"
    by (auto dest!: and_then_Inr split: if_splits)
  show ?thesis
  proof (cases "path_exists w ?target")
    case True
    with a m' show ?thesis by simp
  next
    case False
    with a have f: "find_in_other_arches e (repo package) arch bn ?target (ARCHES e) (m, w)
                      = Inr (m2, w2)" by simp
    show ?thesis
    proof (cases "list_ex (\<lambda>a. a \<noteq> arch \<and>
                   path_exists w (path_join3 (package_dir e a) (repo package) bn)) (ARCHES e)")
      case True
      from find_in_other_arches_some[OF f True] m' True show ?thesis by simp
    next
      case none: False
      from find_in_other_arches_none[OF f none] have "m2 = m \<and> w2 = w" .
      with m' w' False none show ?thesis by simp
    qed
  qed
qed

lemma check_line_not_located:
  assumes "check_line e package arch td line (m, w) = Inr (m', w')"
    and "\<not> located e package arch td w line"
  shows "m' = m \<and> w' = w"
proof (cases "line = [] \<or> \<not> endswith (strip_compression_extension
          (path_join3 (package_dir e arch) (repo package) (basename line))) ''.pkg.tar''")
  case True
  with assms(1) show ?thesis by (auto simp: check_line_def Let_def split: if_splits)
next
  case False
  let ?bn = "basename line"
  let ?file = "path_join3 (package_dir e arch) (repo package) ?bn"
  let ?any = "endswith (strip_compression_extension ?file) ''any.pkg.tar''"
  from False assms(2) have nofile: "\<not> path_exists w ?file"
    and nodl: "\<not> (td \<and> (\<exists>w1. try_download_package e ?file package arch w = Inr (True, w1)))"
    and noany: "?any \<Longrightarrow> \<not> list_ex (\<lambda>a. a \<noteq> arch \<and>
                   path_exists w (path_join3 (package_dir e a) (repo package) ?bn)) (ARCHES e)"
    by (auto simp: located_def Let_def)
  from assms(1) False obtain s1 where
    first: "find_or_download e package arch td ?file (m, w) = Inr s1"
    and second: "(if ?any then share_any_arch e package arch ?bn s1 else Inr s1) = Inr (m', w')"
    by (auto simp: check_line_def Let_def dest!: and_then_Inr)
  obtain m1 w1 where s1: "s1 = (m1, w1)" by (cases s1)
  from find_or_download_cases[OF first[unfolded s1]] nofile nodl
  have 1: "m1 = m \<and> w1 = w" by simp
  show ?thesis
  proof (cases ?any)
    case False
    with second 1 s1 show ?thesis by simp
  next
    case True
    with second 1 s1 have "share_any_arch e package arch ?bn (m, w) = Inr (m', w')" by simp
    from share_any_arch_cases[OF this] nofile noany[OF True] show ?thesis by simp
  qed
qed

lemma check_line_located:
  assumes "check_line e package arch td line (m, w) = Inr (m', w')"
    and "located e package arch td w line"
  shows "m' = False"
proof -
  let ?bn = "basename line"
  let ?file = "path_join3 (package_dir e arch) (repo package) ?bn"
  let ?any = "endswith (strip_compression_extension ?file) ''any.pkg.tar''"
  let ?found = "path_exists w ?file
        \<or> (td \<and> (\<exists>w1. try_download_package e ?file package arch w = Inr (True, w1)))"
  from assms(2) have ne: "line \<noteq> []"
    and art: "endswith (strip_compression_extension ?file) ''.pkg.tar''"
    and loc: "?found
        \<or> (?any \<and> list_ex (\<lambda>a. a \<noteq> arch \<and>
                   path_exists w (path_join3 (package_dir e a) (repo package) ?bn)) (ARCHES e))"
    by (auto simp: located_def Let_def split: sum.splits)
  from assms(1) ne art obtain s1 where
    first: "find_or_download e package arch td ?file (m, w) = Inr s1"
    and second: "(if ?any then share_any_arch e package arch ?bn s1 else Inr s1) = Inr (m', w')"
    by (auto simp: check_line_def Let_def dest!: and_then_Inr)
  obtain m1 w1 where s1: "s1 = (m1, w1)" by (cases s1)
  note fod = find_or_download_cases[OF first[unfolded s1]]
  show ?thesis
  proof (cases ?found)
    case True
    with fod have m1: "m1 = False" by simp
    show ?thesis
    proof (cases ?any)
      case False
      with second s1 m1 show ?thesis by simp
    next
      case True
      with second s1 m1 have "share_any_arch e package arch ?bn (False, w1) = Inr (m', w')"
        by simp
      from share_any_arch_cases[OF this] show ?thesis by (simp split: if_splits)
    qed
  next
    case False
    with fod have 1: "m1 = m \<and> w1 = w" by simp
    from loc False have any: ?any
      and ex: "list_ex (\<lambda>a. a \<noteq> arch \<and>
                   path_exists w (path_join3 (package_dir e a) (repo package) ?bn)) (ARCHES e)"
      by auto
    from second any 1 s1 have "share_any_arch e package arch ?bn (m, w) = Inr (m', w')" by simp
    from share_any_arch_cases[OF this] ex show ?thesis by simp
  qed
qed

lemma check_lines_missing:
  "check_lines e package arch td lines (m, w) = Inr (m', w')
     \<Longrightarrow> m' = (m \<and> \<not> (\<exists>line \<in> set lines. located e package arch td w line))"
proof (induction lines arbitrary: m w)
  case Nil
  then show ?case by simp
next
  case (Cons line lines)
  from Cons.prems obtain m1 w1 where
    l: "check_line e package arch td line (m, w) = Inr (m1, w1)"
    and r: "check_lines e package arch td lines (m1, w1) = Inr (m', w')"
    by (auto dest!: and_then_Inr)
  show ?case
  proof (cases "located e package arch td w line")
    case True
    from check_line_located[OF l True] Cons.IH[OF r] True show ?thesis by simp
  next
    case False
    from check_line_not_located[OF l False] Cons.IH[OF r] False show ?thesis by simp
  qed
qed

text \<open>
  C1, as the claim states it, fails: the package list names two artifacts, the first is in
  the repo and the second is nowhere; \<open>check_package_version_built\<close> returns true although
  an expected artifact is missing, before and after the call.
\<close>

theorem check_package_version_built_counterexample:
  "(let e = example_env
          (\<lambda>p a. (0, ''/pkgbuilds/main/foo/foo-1.0-1-x86_64.pkg.tar.zst\<newline>/pkgbuilds/main/foo/foo-doc-1.0-1-x86_64.pkg.tar.zst\<newline>''))
          (\<lambda>d. []);
        w = \<lparr>files = [''/packages/x86_64/main/foo-1.0-1-x86_64.pkg.tar.zst'' \<mapsto> ''data''],
             log = []\<rparr>;
        doc = ''/packages/x86_64/main/foo-doc-1.0-1-x86_64.pkg.tar.zst''
    in files w doc = None
       \<and> (case check_package_version_built e (recipe ''foo'' [] [] []) ''x86_64'' False w of
             Inl err \<Rightarrow> False
           | Inr (built, w') \<Rightarrow> built \<and> files w' doc = None))"
  by code_simp

text \<open>
  C1, amended: when \<open>check_package_version_built\<close> returns, it returns true if and only
  if at least one line of the package list names an artifact that is located (present in
  the target repo, obtained by download, or an any-arch package found in another arch's
  repo) in the world the call started from. It returns false only when none is located,
  in particular when the package list names no artifact at all.
\<close>

theorem check_package_version_built_iff_some_located:
  assumes "check_package_version_built e package arch try_download w = Inr (built, w')"
  shows "built = (\<exists>line \<in> set (str_split [CHR 0x0A] (snd (packagelist e package arch))).
                    located e package arch try_download w line)"
proof -
  obtain returncode stdout where pl: "packagelist e package arch = (returncode, stdout)"
    by (cases "packagelist e package arch")
  from assms pl obtain missing where
    "check_lines e package arch try_download (str_split [CHR 0x0A] stdout) (True, w)
       = Inr (missing, w')" and "built = (\<not> missing)"
    by (auto simp: check_package_version_built_def dest!: and_then_Inr split: if_splits)
  with check_lines_missing[OF this(1)] pl show ?thesis by simp
qed

theorem check_package_version_built_iff_some_located_witness:
  "(let e = example_env (\<lambda>p a. (0, ''/pkgbuilds/main/doc/doc-1.0-1-any.pkg.tar.zst\<newline>'')) (\<lambda>d. []);
        w = \<lparr>files = [''/packages/x86_64/main/doc-1.0-1-any.pkg.tar.zst'' \<mapsto> ''data''],
             log = []\<rparr>
    in \<exists>line \<in> set (str_split [CHR 0x0A] (snd (packagelist e (recipe ''doc'' [] [] []) ''aarch64''))).
         located e (recipe ''doc'' [] [] []) ''aarch64'' False w line)"
proof -
  let ?e = "example_env (\<lambda>p a. (0, ''/pkgbuilds/main/doc/doc-1.0-1-any.pkg.tar.zst\<newline>'')) (\<lambda>d. [])"
  let ?w = "\<lparr>files = [''/packages/x86_64/main/doc-1.0-1-any.pkg.tar.zst'' \<mapsto> ''data''],
             log = []\<rparr>"
  let ?r = "check_package_version_built ?e (recipe ''doc'' [] [] []) ''aarch64'' False ?w"
  have "map_sum id fst ?r = Inr True" by code_simp
  then obtain w' where "?r = Inr (True, w')" by (cases ?r) auto
  from check_package_version_built_iff_some_located[OF this] show ?thesis
    by (simp add: Let_def)
qed

subsection \<open>add\_package\_to\_repo\<close>









lemma subseq_in_context: "subseq s evs \<Longrightarrow> subseq s (pre @ evs @ post)"
  by (simp add: list_emb_append2 list_emb_prefix)






end
